theory Spec2Isabelle
  imports Complex_Main "HOL-Library.AList"
begin

section \<open>Conventions of the embedding\<close>

text \<open>
  The scam-detection service is Python. A Python \<open>float\<close> is modelled as a \<^typ>\<open>real\<close>,
  so the arithmetic below is exact: rounding, infinities and NaN are outside the model.
  A Python \<open>dict\<close> with string keys is an association list with distinct keys (insertion
  order kept, as in Python); \<open>d.get(k, default)\<close> is a lookup with a default and
  \<open>d.update(e)\<close> overwrites or appends the entries of \<open>e\<close> one after the other.
\<close>

type_synonym 'v dict = "(string \<times> 'v) list"

definition dict_get :: "'v dict \<Rightarrow> string \<Rightarrow> 'v \<Rightarrow> 'v" where
  "dict_get d k dflt = (case map_of d k of Some v \<Rightarrow> v | None \<Rightarrow> dflt)"

definition dict_update :: "'v dict \<Rightarrow> 'v dict \<Rightarrow> 'v dict" where
  "dict_update d e = foldl (\<lambda>acc (k, v). AList.update k v acc) d e"

definition dict_values :: "'v dict \<Rightarrow> 'v list" where
  "dict_values d = map snd d"

text \<open>\<open>numpy.mean\<close> and \<open>numpy.var\<close> (population variance) of a list of floats.\<close>

definition np_mean :: "real list \<Rightarrow> real" where
  "np_mean xs = sum_list xs / real (length xs)"

definition np_var :: "real list \<Rightarrow> real" where
  "np_var xs = np_mean (map (\<lambda>x. (x - np_mean xs)\<^sup>2) xs)"

section \<open>Regular expressions of the rule catalog\<close>

text \<open>
  The pattern matcher uses Python's \<open>re\<close> module. The patterns of the catalog use literal
  characters, the classes \<open>\s\<close> and \<open>\d\<close>, bracketed sets, non-capturing groups with
  alternatives, the optional item \<open>?\<close> and the repetitions \<open>+\<close> and \<open>*\<close> of a single
  character class. A pattern is kept as its syntax tree. Texts are lists of characters
  with code points below 256.
\<close>

datatype cclass = Chr char | Digit | Space | OneOf "cclass list"

datatype regex =
    Sym cclass
  | Seq "regex list"
  | Alt "regex list"
  | Opt regex
  | Plus cclass
  | Star cclass

definition lit :: "string \<Rightarrow> regex" where
  "lit s = Seq (map (\<lambda>c. Sym (Chr c)) s)"

text \<open>
  The patterns are compiled with \<open>re.IGNORECASE\<close>: a letter matches both of its cases.
  Compiling folds the letters of the pattern to lower case, and the search runs on the
  text folded in the same way.
\<close>

definition lower_char :: "char \<Rightarrow> char" where
  "lower_char c =
     (case map_of (zip ''ABCDEFGHIJKLMNOPQRSTUVWXYZ'' ''abcdefghijklmnopqrstuvwxyz'') c of
        Some l \<Rightarrow> l
      | None \<Rightarrow> c)"

fun fold_cclass :: "cclass \<Rightarrow> cclass" where
  "fold_cclass (Chr c) = Chr (lower_char c)"
| "fold_cclass Digit = Digit"
| "fold_cclass Space = Space"
| "fold_cclass (OneOf cs) = OneOf (map fold_cclass cs)"

fun re_compile :: "regex \<Rightarrow> regex" where
  "re_compile (Sym c) = Sym (fold_cclass c)"
| "re_compile (Seq rs) = Seq (map re_compile rs)"
| "re_compile (Alt rs) = Alt (map re_compile rs)"
| "re_compile (Opt r) = Opt (re_compile r)"
| "re_compile (Plus c) = Plus (fold_cclass c)"
| "re_compile (Star c) = Star (fold_cclass c)"

definition is_digit :: "char \<Rightarrow> bool" where
  "is_digit c = (c \<in> set ''0123456789'')"

text \<open>\<open>\s\<close> on a \<open>str\<close> pattern: the characters for which \<open>str.isspace\<close> holds.\<close>

definition is_space :: "char \<Rightarrow> bool" where
  "is_space c =
     (c \<in> set [CHR 0x09, CHR 0x0A, CHR 0x0B, CHR 0x0C, CHR 0x0D, CHR 0x1C, CHR 0x1D, CHR 0x1E,
                CHR 0x1F, CHR 0x20, CHR 0x85, CHR 0xA0])"

text \<open>Does a character of the folded text belong to a class of a compiled pattern?\<close>

fun cclass_match :: "cclass \<Rightarrow> char \<Rightarrow> bool" where
  "cclass_match (Chr c) t = (t = c)"
| "cclass_match Digit t = is_digit t"
| "cclass_match Space t = is_space t"
| "cclass_match (OneOf cs) t = list_ex (\<lambda>c. cclass_match c t) cs"

text \<open>
  Backtracking search as a list of successes: \<open>rx_match r s\<close> lists what is left of \<open>s\<close>
  after each way of matching \<open>r\<close> at its start, in the order in which the backtracking
  matcher tries them (alternatives left to right, optional items and repetitions greedy).
  The match that \<open>re\<close> reports is the first one.
\<close>

fun rx_match :: "regex \<Rightarrow> string \<Rightarrow> string list" where
  "rx_match (Sym c) s = (case s of [] \<Rightarrow> [] | t # ts \<Rightarrow> if cclass_match c t then [ts] else [])"
| "rx_match (Seq []) s = [s]"
| "rx_match (Seq (r # rs)) s = concat (map (rx_match (Seq rs)) (rx_match r s))"
| "rx_match (Alt rs) s = concat (map (\<lambda>r. rx_match r s) rs)"
| "rx_match (Opt r) s = rx_match r s @ [s]"
| "rx_match (Plus c) s =
     (let n = length (takeWhile (cclass_match c) s) in map (\<lambda>k. drop k s) (rev [1..<Suc n]))"
| "rx_match (Star c) s =
     (let n = length (takeWhile (cclass_match c) s) in map (\<lambda>k. drop k s) (rev [0..<Suc n]))"

text \<open>
  The scan of \<open>pattern.findall\<close>: the non-overlapping matches from the left, each as its
  start and its length. \<open>skip\<close> counts the characters still covered by the previous
  match, \<open>pos\<close> is the position of the scan.
\<close>

fun findall_from :: "regex \<Rightarrow> nat \<Rightarrow> nat \<Rightarrow> string \<Rightarrow> (nat \<times> nat) list" where
  "findall_from r skip pos [] = (if skip = 0 \<and> rx_match r [] \<noteq> [] then [(pos, 0)] else [])"
| "findall_from r skip pos (c # cs) =
     (if skip > 0 then findall_from r (skip - 1) (Suc pos) cs
      else
        (case rx_match r (c # cs) of
           [] \<Rightarrow> findall_from r 0 (Suc pos) cs
         | rest # _ \<Rightarrow>
             let k = length (c # cs) - length rest
             in (pos, k) # findall_from r (k - 1) (Suc pos) cs))"

text \<open>
  \<open>compiled_pattern.findall(text)\<close> for a pattern without capturing groups: the matched
  substrings of the text.
\<close>

definition findall :: "regex \<Rightarrow> string \<Rightarrow> string list" where
  "findall compiled_pattern text =
     map (\<lambda>(i, k). take k (drop i text)) (findall_from compiled_pattern 0 0 (map lower_char text))"

section \<open>Pattern matcher (app/models/pattern\_matcher.py)\<close>

datatype RiskLevel = CRITICAL | HIGH | MEDIUM | LOW

record PatternMatch =
  pattern :: regex
  matches :: "string list"
  risk_level :: RiskLevel
  confidence :: real
  category :: string
  description :: string

text \<open>
  \<open>_initialize_patterns\<close>: the catalog, category by category in the order of the source,
  each rule with the text of its pattern.
\<close>

definition investment_scams_patterns :: "(regex \<times> RiskLevel) list" where
  \<open>investment_scams_patterns =
     [
      \<comment> \<open>guaranteed\s+(?:returns?|profits?|income)\<close>
      (Seq [lit ''guaranteed'', Plus Space, Alt [Seq [lit ''return'', Opt (lit ''s'')],
       Seq [lit ''profit'', Opt (lit ''s'')], lit ''income'']],
       CRITICAL),
      \<comment> \<open>risk\s*-?\s*free\s+(?:investment|trading|opportunity)\<close>
      (Seq [lit ''risk'', Star Space, Opt (lit ''-''), Star Space, lit ''free'', Plus Space,
       Alt [lit ''investment'', lit ''trading'', lit ''opportunity'']],
       CRITICAL),
      \<comment> \<open>double\s+your\s+money\s+in\s+\d+\s+(?:days?|weeks?|months?)\<close>
      (Seq [lit ''double'', Plus Space, lit ''your'', Plus Space, lit ''money'', Plus Space,
       lit ''in'', Plus Space, Plus Digit, Plus Space, Alt [Seq [lit ''day'', Opt (lit ''s'')],
       Seq [lit ''week'', Opt (lit ''s'')], Seq [lit ''month'', Opt (lit ''s'')]]],
       CRITICAL),
      \<comment> \<open>(?:200|300|500|1000)%\s+(?:return|profit|guaranteed)\<close>
      (Seq [Alt [lit ''200'', lit ''300'', lit ''500'', lit ''1000''], lit ''%'', Plus Space,
       Alt [lit ''return'', lit ''profit'', lit ''guaranteed'']],
       CRITICAL),
      \<comment> \<open>ponzi\s+scheme\<close>
      (Seq [lit ''ponzi'', Plus Space, lit ''scheme''],
       CRITICAL),
      \<comment> \<open>pyramid\s+scheme\<close>
      (Seq [lit ''pyramid'', Plus Space, lit ''scheme''],
       CRITICAL),
      \<comment> \<open>binary\s+options\s+trading\<close>
      (Seq [lit ''binary'', Plus Space, lit ''options'', Plus Space, lit ''trading''],
       HIGH),
      \<comment> \<open>forex\s+trading\s+(?:robot|bot|system)\<close>
      (Seq [lit ''forex'', Plus Space, lit ''trading'', Plus Space, Alt [lit ''robot'',
       lit ''bot'', lit ''system'']],
       HIGH),
      \<comment> \<open>insider\s+(?:trading|information)\<close>
      (Seq [lit ''insider'', Plus Space, Alt [lit ''trading'', lit ''information'']],
       HIGH),
      \<comment> \<open>stock\s+pump\s+and\s+dump\<close>
      (Seq [lit ''stock'', Plus Space, lit ''pump'', Plus Space, lit ''and'', Plus Space,
       lit ''dump''],
       HIGH)
     ]\<close>

definition crypto_scams_patterns :: "(regex \<times> RiskLevel) list" where
  \<open>crypto_scams_patterns =
     [
      \<comment> \<open>bitcoin\s+(?:giveaway|doubler|investment)\<close>
      (Seq [lit ''bitcoin'', Plus Space, Alt [lit ''giveaway'', lit ''doubler'',
       lit ''investment'']],
       CRITICAL),
      \<comment> \<open>ethereum\s+(?:giveaway|doubler)\<close>
      (Seq [lit ''ethereum'', Plus Space, Alt [lit ''giveaway'', lit ''doubler'']],
       CRITICAL),
      \<comment> \<open>crypto\s+(?:mining|investment)\s+(?:guaranteed|profits?)\<close>
      (Seq [lit ''crypto'', Plus Space, Alt [lit ''mining'', lit ''investment''], Plus Space,
       Alt [lit ''guaranteed'', Seq [lit ''profit'', Opt (lit ''s'')]]],
       HIGH),
      \<comment> \<open>send\s+(?:bitcoin|btc|ethereum|eth)\s+get\s+(?:double|triple)\<close>
      (Seq [lit ''send'', Plus Space, Alt [lit ''bitcoin'', lit ''btc'', lit ''ethereum'',
       lit ''eth''], Plus Space, lit ''get'', Plus Space, Alt [lit ''double'', lit ''triple'']],
       CRITICAL),
      \<comment> \<open>elon\s+musk\s+(?:bitcoin|crypto)\s+giveaway\<close>
      (Seq [lit ''elon'', Plus Space, lit ''musk'', Plus Space, Alt [lit ''bitcoin'',
       lit ''crypto''], Plus Space, lit ''giveaway''],
       CRITICAL),
      \<comment> \<open>rug\s+pull\s+(?:crypto|token)\<close>
      (Seq [lit ''rug'', Plus Space, lit ''pull'', Plus Space, Alt [lit ''crypto'', lit ''token'']],
       HIGH),
      \<comment> \<open>pump\s+and\s+dump\s+(?:crypto|coin)\<close>
      (Seq [lit ''pump'', Plus Space, lit ''and'', Plus Space, lit ''dump'', Plus Space,
       Alt [lit ''crypto'', lit ''coin'']],
       HIGH),
      \<comment> \<open>defi\s+(?:guaranteed|risk-free)\<close>
      (Seq [lit ''defi'', Plus Space, Alt [lit ''guaranteed'', lit ''risk-free'']],
       HIGH),
      \<comment> \<open>nft\s+(?:guaranteed|investment|profits?)\<close>
      (Seq [lit ''nft'', Plus Space, Alt [lit ''guaranteed'', lit ''investment'',
       Seq [lit ''profit'', Opt (lit ''s'')]]],
       MEDIUM)
     ]\<close>

definition romance_scams_patterns :: "(regex \<times> RiskLevel) list" where
  \<open>romance_scams_patterns =
     [
      \<comment> \<open>need\s+money\s+for\s+(?:emergency|medical|travel)\<close>
      (Seq [lit ''need'', Plus Space, lit ''money'', Plus Space, lit ''for'', Plus Space,
       Alt [lit ''emergency'', lit ''medical'', lit ''travel'']],
       HIGH),
      \<comment> \<open>western\s+union\s+(?:transfer|money)\<close>
      (Seq [lit ''western'', Plus Space, lit ''union'', Plus Space, Alt [lit ''transfer'',
       lit ''money'']],
       HIGH),
      \<comment> \<open>money\s*gram\s+transfer\<close>
      (Seq [lit ''money'', Star Space, lit ''gram'', Plus Space, lit ''transfer''],
       HIGH),
      \<comment> \<open>gift\s+cards?\s+(?:payment|money|transfer)\<close>
      (Seq [lit ''gift'', Plus Space, lit ''card'', Opt (lit ''s''), Plus Space,
       Alt [lit ''payment'', lit ''money'', lit ''transfer'']],
       HIGH),
      \<comment> \<open>i\s+love\s+you\s+(?:but|and)\s+need\<close>
      (Seq [lit ''i'', Plus Space, lit ''love'', Plus Space, lit ''you'', Plus Space,
       Alt [lit ''but'', lit ''and''], Plus Space, lit ''need''],
       MEDIUM),
      \<comment> \<open>military\s+(?:deployment|overseas)\s+money\<close>
      (Seq [lit ''military'', Plus Space, Alt [lit ''deployment'', lit ''overseas''], Plus Space,
       lit ''money''],
       MEDIUM),
      \<comment> \<open>stranded\s+(?:abroad|overseas)\s+need\s+money\<close>
      (Seq [lit ''stranded'', Plus Space, Alt [lit ''abroad'', lit ''overseas''], Plus Space,
       lit ''need'', Plus Space, lit ''money''],
       HIGH),
      \<comment> \<open>inheritance\s+money\s+(?:help|transfer)\<close>
      (Seq [lit ''inheritance'', Plus Space, lit ''money'', Plus Space, Alt [lit ''help'',
       lit ''transfer'']],
       MEDIUM)
     ]\<close>

definition phishing_scams_patterns :: "(regex \<times> RiskLevel) list" where
  \<open>phishing_scams_patterns =
     [
      \<comment> \<open>verify\s+your\s+(?:account|identity)\s+(?:immediately|now)\<close>
      (Seq [lit ''verify'', Plus Space, lit ''your'', Plus Space, Alt [lit ''account'',
       lit ''identity''], Plus Space, Alt [lit ''immediately'', lit ''now'']],
       CRITICAL),
      \<comment> \<open>account\s+(?:suspended|locked|compromised)\<close>
      (Seq [lit ''account'', Plus Space, Alt [lit ''suspended'', lit ''locked'',
       lit ''compromised'']],
       HIGH),
      \<comment> \<open>confirm\s+your\s+(?:details|information|payment)\<close>
      (Seq [lit ''confirm'', Plus Space, lit ''your'', Plus Space, Alt [lit ''details'',
       lit ''information'', lit ''payment'']],
       HIGH),
      \<comment> \<open>update\s+your\s+(?:password|payment|billing)\<close>
      (Seq [lit ''update'', Plus Space, lit ''your'', Plus Space, Alt [lit ''password'',
       lit ''payment'', lit ''billing'']],
       HIGH),
      \<comment> \<open>click\s+here\s+to\s+(?:verify|confirm|update)\<close>
      (Seq [lit ''click'', Plus Space, lit ''here'', Plus Space, lit ''to'', Plus Space,
       Alt [lit ''verify'', lit ''confirm'', lit ''update'']],
       HIGH),
      \<comment> \<open>suspicious\s+activity\s+detected\<close>
      (Seq [lit ''suspicious'', Plus Space, lit ''activity'', Plus Space, lit ''detected''],
       HIGH),
      \<comment> \<open>unauthorized\s+(?:access|transaction|login)\<close>
      (Seq [lit ''unauthorized'', Plus Space, Alt [lit ''access'', lit ''transaction'',
       lit ''login'']],
       MEDIUM),
      \<comment> \<open>security\s+alert\s+(?:urgent|immediate)\<close>
      (Seq [lit ''security'', Plus Space, lit ''alert'', Plus Space, Alt [lit ''urgent'',
       lit ''immediate'']],
       MEDIUM)
     ]\<close>

definition tech_support_scams_patterns :: "(regex \<times> RiskLevel) list" where
  \<open>tech_support_scams_patterns =
     [
      \<comment> \<open>microsoft\s+(?:support|security|windows)\<close>
      (Seq [lit ''microsoft'', Plus Space, Alt [lit ''support'', lit ''security'',
       lit ''windows'']],
       HIGH),
      \<comment> \<open>apple\s+support\s+(?:urgent|security)\<close>
      (Seq [lit ''apple'', Plus Space, lit ''support'', Plus Space, Alt [lit ''urgent'',
       lit ''security'']],
       HIGH),
      \<comment> \<open>computer\s+(?:infected|virus|malware)\<close>
      (Seq [lit ''computer'', Plus Space, Alt [lit ''infected'', lit ''virus'', lit ''malware'']],
       HIGH),
      \<comment> \<open>call\s+(?:this\s+number|immediately)\s+\+?[\d\-\(\)\s]+\<close>
      (Seq [lit ''call'', Plus Space, Alt [Seq [lit ''this'', Plus Space, lit ''number''],
       lit ''immediately''], Plus Space, Opt (lit ''+''), Plus (OneOf [Digit, Chr (CHR ''-''),
       Chr (CHR ''(''), Chr (CHR '')''), Space])],
       HIGH),
      \<comment> \<open>remote\s+access\s+(?:required|needed)\<close>
      (Seq [lit ''remote'', Plus Space, lit ''access'', Plus Space, Alt [lit ''required'',
       lit ''needed'']],
       HIGH),
      \<comment> \<open>firewall\s+(?:breach|compromised)\<close>
      (Seq [lit ''firewall'', Plus Space, Alt [lit ''breach'', lit ''compromised'']],
       MEDIUM),
      \<comment> \<open>trojan\s+(?:detected|virus|malware)\<close>
      (Seq [lit ''trojan'', Plus Space, Alt [lit ''detected'', lit ''virus'', lit ''malware'']],
       MEDIUM)
     ]\<close>

definition lottery_scams_patterns :: "(regex \<times> RiskLevel) list" where
  \<open>lottery_scams_patterns =
     [
      \<comment> \<open>you\s+(?:have\s+)?won\s+\$?[\d,]+\<close>
      (Seq [lit ''you'', Plus Space, Opt (Seq [lit ''have'', Plus Space]), lit ''won'', Plus Space,
       Opt (lit ''$''), Plus (OneOf [Digit, Chr (CHR '','')])],
       HIGH),
      \<comment> \<open>lottery\s+(?:winner|prize|jackpot)\<close>
      (Seq [lit ''lottery'', Plus Space, Alt [lit ''winner'', lit ''prize'', lit ''jackpot'']],
       HIGH),
      \<comment> \<open>congratulations\s+you\s+(?:won|selected)\<close>
      (Seq [lit ''congratulations'', Plus Space, lit ''you'', Plus Space, Alt [lit ''won'',
       lit ''selected'']],
       MEDIUM),
      \<comment> \<open>claim\s+your\s+(?:prize|winnings|reward)\<close>
      (Seq [lit ''claim'', Plus Space, lit ''your'', Plus Space, Alt [lit ''prize'',
       lit ''winnings'', lit ''reward'']],
       MEDIUM),
      \<comment> \<open>processing\s+fee\s+(?:required|needed)\<close>
      (Seq [lit ''processing'', Plus Space, lit ''fee'', Plus Space, Alt [lit ''required'',
       lit ''needed'']],
       HIGH),
      \<comment> \<open>tax\s+(?:payment|fee)\s+(?:required|needed)\<close>
      (Seq [lit ''tax'', Plus Space, Alt [lit ''payment'', lit ''fee''], Plus Space,
       Alt [lit ''required'', lit ''needed'']],
       HIGH)
     ]\<close>

definition job_scams_patterns :: "(regex \<times> RiskLevel) list" where
  \<open>job_scams_patterns =
     [
      \<comment> \<open>work\s+from\s+home\s+(?:\$\d+|\d+\$)\<close>
      (Seq [lit ''work'', Plus Space, lit ''from'', Plus Space, lit ''home'', Plus Space,
       Alt [Seq [lit ''$'', Plus Digit], Seq [Plus Digit, lit ''$'']]],
       MEDIUM),
      \<comment> \<open>easy\s+money\s+(?:guaranteed|opportunity)\<close>
      (Seq [lit ''easy'', Plus Space, lit ''money'', Plus Space, Alt [lit ''guaranteed'',
       lit ''opportunity'']],
       MEDIUM),
      \<comment> \<open>envelope\s+stuffing\s+(?:job|work)\<close>
      (Seq [lit ''envelope'', Plus Space, lit ''stuffing'', Plus Space, Alt [lit ''job'',
       lit ''work'']],
       MEDIUM),
      \<comment> \<open>mystery\s+shopper\s+(?:job|opportunity)\<close>
      (Seq [lit ''mystery'', Plus Space, lit ''shopper'', Plus Space, Alt [lit ''job'',
       lit ''opportunity'']],
       MEDIUM),
      \<comment> \<open>data\s+entry\s+(?:\$\d+|\d+\$)\s+(?:per\s+hour|daily)\<close>
      (Seq [lit ''data'', Plus Space, lit ''entry'', Plus Space, Alt [Seq [lit ''$'', Plus Digit],
       Seq [Plus Digit, lit ''$'']], Plus Space, Alt [Seq [lit ''per'', Plus Space, lit ''hour''],
       lit ''daily'']],
       MEDIUM),
      \<comment> \<open>no\s+experience\s+(?:required|needed)\s+high\s+pay\<close>
      (Seq [lit ''no'', Plus Space, lit ''experience'', Plus Space, Alt [lit ''required'',
       lit ''needed''], Plus Space, lit ''high'', Plus Space, lit ''pay''],
       MEDIUM)
     ]\<close>

definition urgency_tactics_patterns :: "(regex \<times> RiskLevel) list" where
  \<open>urgency_tactics_patterns =
     [
      \<comment> \<open>act\s+now\s+or\s+(?:miss\s+out|lose)\<close>
      (Seq [lit ''act'', Plus Space, lit ''now'', Plus Space, lit ''or'', Plus Space,
       Alt [Seq [lit ''miss'', Plus Space, lit ''out''], lit ''lose'']],
       HIGH),
      \<comment> \<open>limited\s+time\s+offer\s+expires?\<close>
      (Seq [lit ''limited'', Plus Space, lit ''time'', Plus Space, lit ''offer'', Plus Space,
       lit ''expire'', Opt (lit ''s'')],
       MEDIUM),
      \<comment> \<open>urgent\s+(?:action\s+)?required\<close>
      (Seq [lit ''urgent'', Plus Space, Opt (Seq [lit ''action'', Plus Space]), lit ''required''],
       MEDIUM),
      \<comment> \<open>expires?\s+(?:today|tonight|in\s+\d+\s+hours?)\<close>
      (Seq [lit ''expire'', Opt (lit ''s''), Plus Space, Alt [lit ''today'', lit ''tonight'',
       Seq [lit ''in'', Plus Space, Plus Digit, Plus Space, lit ''hour'', Opt (lit ''s'')]]],
       MEDIUM),
      \<comment> \<open>last\s+(?:chance|opportunity)\<close>
      (Seq [lit ''last'', Plus Space, Alt [lit ''chance'', lit ''opportunity'']],
       MEDIUM),
      \<comment> \<open>immediate\s+(?:action\s+)?required\<close>
      (Seq [lit ''immediate'', Plus Space, Opt (Seq [lit ''action'', Plus Space]),
       lit ''required''],
       MEDIUM),
      \<comment> \<open>don\'?t\s+(?:delay|wait|hesitate)\<close>
      (Seq [lit ''don'', Opt (Sym (Chr (CHR 0x27))), lit ''t'', Plus Space, Alt [lit ''delay'',
       lit ''wait'', lit ''hesitate'']],
       LOW)
     ]\<close>

definition contact_pressure_patterns :: "(regex \<times> RiskLevel) list" where
  \<open>contact_pressure_patterns =
     [
      \<comment> \<open>call\s+(?:me\s+)?(?:now|immediately|asap)\<close>
      (Seq [lit ''call'', Plus Space, Opt (Seq [lit ''me'', Plus Space]), Alt [lit ''now'',
       lit ''immediately'', lit ''asap'']],
       MEDIUM),
      \<comment> \<open>text\s+(?:me\s+)?(?:back|now|asap)\<close>
      (Seq [lit ''text'', Plus Space, Opt (Seq [lit ''me'', Plus Space]), Alt [lit ''back'',
       lit ''now'', lit ''asap'']],
       MEDIUM),
      \<comment> \<open>respond\s+(?:immediately|asap|now)\<close>
      (Seq [lit ''respond'', Plus Space, Alt [lit ''immediately'', lit ''asap'', lit ''now'']],
       MEDIUM),
      \<comment> \<open>reply\s+(?:immediately|asap|now)\<close>
      (Seq [lit ''reply'', Plus Space, Alt [lit ''immediately'', lit ''asap'', lit ''now'']],
       MEDIUM),
      \<comment> \<open>contact\s+(?:me\s+)?(?:immediately|asap)\<close>
      (Seq [lit ''contact'', Plus Space, Opt (Seq [lit ''me'', Plus Space]),
       Alt [lit ''immediately'', lit ''asap'']],
       MEDIUM)
     ]\<close>

definition patterns :: "(string \<times> (regex \<times> RiskLevel) list \<times> string) list" where
  "patterns =
     [(''investment_scams'', investment_scams_patterns, ''Investment and trading scams''),
      (''crypto_scams'', crypto_scams_patterns, ''Cryptocurrency-related scams''),
      (''romance_scams'', romance_scams_patterns, ''Romance and social engineering scams''),
      (''phishing_scams'', phishing_scams_patterns, ''Phishing and account verification scams''),
      (''tech_support_scams'', tech_support_scams_patterns, ''Tech support scams''),
      (''lottery_scams'', lottery_scams_patterns, ''Lottery and prize scams''),
      (''job_scams'', job_scams_patterns, ''Employment and job scams''),
      (''urgency_tactics'', urgency_tactics_patterns, ''Urgency and pressure tactics''),
      (''contact_pressure'', contact_pressure_patterns, ''Contact and response pressure'')]"

text \<open>The table \<open>base_confidence\<close> inside \<open>find_matches\<close>.\<close>

fun base_confidence :: "RiskLevel \<Rightarrow> real" where
  "base_confidence CRITICAL = 0.9"
| "base_confidence HIGH = 0.8"
| "base_confidence MEDIUM = 0.6"
| "base_confidence LOW = 0.4"

text \<open>\<open>_compile_patterns\<close>: every rule of the catalog with its compiled pattern.\<close>

definition compiled_patterns :: "(string \<times> (regex \<times> regex \<times> RiskLevel) list) list" where
  "compiled_patterns =
     map (\<lambda>(category_name, pattern_list, category_description).
            (category_name,
             map (\<lambda>(original_pattern, level).
                    (re_compile original_pattern, original_pattern, level)) pattern_list))
         patterns"

text \<open>
  \<open>find_matches\<close>: for every category and every rule of it, in order, one
  \<open>PatternMatch\<close> when the rule's pattern is found in the text.
\<close>

definition rule_match ::
  "string \<Rightarrow> string \<Rightarrow> string \<Rightarrow> regex \<times> regex \<times> RiskLevel \<Rightarrow> PatternMatch list"
where
  "rule_match text category_name category_description rule =
     (case rule of (compiled_pattern, original_pattern, level) \<Rightarrow>
        let found_matches = findall compiled_pattern text in
        if found_matches \<noteq> []
        then
          let match_count = length found_matches;
              confidence = min 0.95 (base_confidence level + (real match_count - 1) * 0.05)
          in [\<lparr> pattern = original_pattern, matches = found_matches, risk_level = level,
                confidence = confidence, category = category_name,
                description = category_description \<rparr>]
        else [])"

definition category_description_of :: "string \<Rightarrow> string" where
  "category_description_of category_name =
     (case map_of patterns category_name of
        Some (pattern_list, category_description) \<Rightarrow> category_description
      | None \<Rightarrow> [])"

definition find_matches :: "string \<Rightarrow> PatternMatch list" where
  "find_matches text =
     concat (map (\<lambda>(category_name, pattern_list).
                concat (map (rule_match text category_name (category_description_of category_name))
                          pattern_list))
             compiled_patterns)"

text \<open>The text of scenario A.\<close>

definition scenario_A :: string where
  "scenario_A = ''guaranteed 500% returns on your investment! act now!''"

section \<open>Random numbers (numpy.random)\<close>

text \<open>
  The simulators draw from numpy's process-wide generator, which is outside this
  repository. Its state is a value of a type \<open>'g\<close>, and its operations are parameters:
  \<open>np.random.seed(n)\<close> sets the state, \<open>np.random.normal(loc, scale)\<close> and
  \<open>np.random.uniform(low, high)\<close> return a sample and move the state on.
\<close>

record 'g numpy_random =
  np_seed :: "nat \<Rightarrow> 'g"
  np_normal :: "real \<Rightarrow> real \<Rightarrow> 'g \<Rightarrow> real \<times> 'g"
  np_uniform :: "real \<Rightarrow> real \<Rightarrow> 'g \<Rightarrow> real \<times> 'g"

text \<open>
  A generator for examples: the state counts the draws; the normal samples lie one
  standard deviation above and below the mean in turn, the uniform ones in the middle.
\<close>

definition alternating_generator :: "nat numpy_random" where
  "alternating_generator =
     \<lparr> np_seed = (\<lambda>n. 0),
       np_normal = (\<lambda>loc scale k. (if even k then loc + scale else loc - scale, Suc k)),
       np_uniform = (\<lambda>low high k. ((low + high) / 2, Suc k)) \<rparr>"

definition np_clip :: "real \<Rightarrow> real \<Rightarrow> real \<Rightarrow> real" where
  "np_clip x lo hi = min (max x lo) hi"

section \<open>Results of the BERT models\<close>

text \<open>
  A prediction of a BERT model or of one of its simulators is a dictionary; a field is
  \<open>None\<close> when the key is absent. The keys \<open>pattern_details\<close> and
  \<open>processing_metadata\<close> of the simulator are left out.
\<close>

record BertResult =
  scam_probability :: "real option"
  confidence :: "real option"
  prediction :: "string option"
  model_type :: "string option"
  matched_patterns :: "nat option"
  error_message :: "string option"

section \<open>Model simulator (app/utils/model\_simulator.py)\<close>

text \<open>\<open>initialize_models\<close> ends with \<open>np.random.seed(42)\<close>.\<close>

definition initialize_models :: "'g numpy_random \<Rightarrow> 'g" where
  "initialize_models np = np_seed np 42"

definition base_probabilities :: "string \<Rightarrow> real" where
  "base_probabilities k =
     (if k = ''empty'' then 0.01
      else if k = ''very_short'' then 0.15
      else if k = ''short'' then 0.25
      else if k = ''medium'' then 0.35
      else 0.30)"

definition get_base_score_by_length :: "nat \<Rightarrow> real" where
  "get_base_score_by_length text_length =
     (if text_length = 0 then base_probabilities ''empty''
      else if text_length < 20 then base_probabilities ''very_short''
      else if text_length < 100 then base_probabilities ''short''
      else if text_length < 500 then base_probabilities ''medium''
      else base_probabilities ''long'')"

definition combine_scores_neural_style :: "real \<Rightarrow> real \<Rightarrow> real \<Rightarrow> real" where
  "combine_scores_neural_style base_score pattern_score context_score =
     (let linear_combination = base_score * 0.2 + pattern_score * 0.6 + context_score * 0.2;
          activated = 1 / (1 + exp (- 5 * (linear_combination - 0.5)))
      in np_clip activated 0 1)"

text \<open>\<open>_add_model_uncertainty\<close>: one normal draw from the generator.\<close>

definition add_model_uncertainty ::
  "'g numpy_random \<Rightarrow> real \<Rightarrow> 'g \<Rightarrow> (real \<times> real) \<times> 'g"
where
  "add_model_uncertainty np s g =
     (let noise_std = 0.05;
          (noise, g') = np_normal np 0 noise_std g;
          noisy_score = s + noise;
          final_score = np_clip noisy_score 0 1;
          distance_from_boundary = \<bar>final_score - 0.5\<bar>;
          conf = min 0.95 (0.5 + distance_from_boundary)
      in ((final_score, conf), g'))"

definition py_strip :: "string \<Rightarrow> string" where
  "py_strip s = rev (dropWhile is_space (rev (dropWhile is_space s)))"

definition empty_prediction :: BertResult where
  "empty_prediction =
     \<lparr> scam_probability = Some 0.01, confidence = Some 0.95, prediction = Some ''not_scam'',
       model_type = Some ''empty_text_handler'', matched_patterns = Some 0,
       error_message = None \<rparr>"

text \<open>
  \<open>ScamModelSimulator.simulate_bert_prediction\<close>. The pattern score and the context
  score are counts of regular-expression matches in the lower-cased text; they are
  functions of the text alone and enter as the parameters \<open>pattern_score_of\<close> (with the
  number of matched patterns) and \<open>context_score_of\<close>. The generator state goes in and
  comes out.
\<close>

definition ScamModelSimulator_simulate_bert_prediction ::
  "'g numpy_random \<Rightarrow> (string \<Rightarrow> real \<times> nat) \<Rightarrow> (string \<Rightarrow> real) \<Rightarrow> string \<Rightarrow> 'g
     \<Rightarrow> BertResult \<times> 'g"
where
  "ScamModelSimulator_simulate_bert_prediction np pattern_score_of context_score_of text g =
     (if text = [] \<or> length (py_strip text) < 5 then (empty_prediction, g)
      else
        let text_length = length text;
            base_score = get_base_score_by_length text_length;
            (pattern_score, n_matched) = pattern_score_of text;
            context_score = context_score_of text;
            combined_score = combine_scores_neural_style base_score pattern_score context_score;
            ((final_score, conf), g') = add_model_uncertainty np combined_score g;
            label = (if final_score > 0.5 then ''scam'' else ''not_scam'')
        in (\<lparr> scam_probability = Some final_score, confidence = Some conf,
               prediction = Some label, model_type = Some ''bert_simulation'',
               matched_patterns = Some n_matched, error_message = None \<rparr>, g'))"

text \<open>
  Two calls on the same text, one after the other, starting from the state that
  \<open>initialize_models\<close> leaves.
\<close>

definition two_calls ::
  "'g numpy_random \<Rightarrow> (string \<Rightarrow> real \<times> nat) \<Rightarrow> (string \<Rightarrow> real) \<Rightarrow> string
     \<Rightarrow> BertResult \<times> BertResult"
where
  "two_calls np pattern_score_of context_score_of text =
     (let g0 = initialize_models np;
          (first_result, g1) =
             ScamModelSimulator_simulate_bert_prediction np pattern_score_of context_score_of text g0;
          (second_result, g2) =
             ScamModelSimulator_simulate_bert_prediction np pattern_score_of context_score_of text g1
      in (first_result, second_result))"

section \<open>Pattern simulator (app/models/bert\_classifier.py)\<close>

text \<open>
  The module binds these names before its last line runs: the names it imports, its
  logger, its two classes and \<open>bert_classifier\<close>. It imports neither \<open>re\<close> nor \<open>Any\<close>.
  Reading a name that is not bound raises \<open>NameError\<close>.
\<close>

definition bert_classifier_module_names :: "string list" where
  "bert_classifier_module_names =
     [''logging'', ''List'', ''Dict'', ''Tuple'', ''Optional'', ''torch'', ''nn'', ''np'',
      ''AutoTokenizer'', ''AutoModelForSequenceClassification'', ''AutoConfig'', ''pipeline'',
      ''accuracy_score'', ''precision_recall_fscore_support'', ''pickle'', ''Path'',
      ''settings'', ''logger'', ''BERTScamClassifier'', ''ScamPatternSimulator'',
      ''bert_classifier'']"

definition lookup_name :: "string list \<Rightarrow> string \<Rightarrow> string + unit" where
  "lookup_name names name =
     (if name \<in> set names then Inr ()
      else Inl (''NameError: name '' @ name @ '' is not defined''))"

text \<open>
  An instance of a Python class is the dictionary of its attributes. Reading an
  attribute that the instance does not have raises \<open>AttributeError\<close>.
\<close>

datatype attr_value =
    PatternList "regex list"
  | WeightedPatterns "(regex \<times> real) list"
  | Simulator "string \<Rightarrow> BertResult"

type_synonym py_instance = "(string \<times> attr_value) list"

definition getattr :: "py_instance \<Rightarrow> string \<Rightarrow> string + attr_value" where
  "getattr obj name =
     (case map_of obj name of
        None \<Rightarrow> Inl (''AttributeError: no attribute '' @ name)
      | Some v \<Rightarrow> Inr v)"

text \<open>The patterns that \<open>ScamPatternSimulator.__init__\<close> lists.\<close>

definition scam_patterns :: "regex list" where
  \<open>scam_patterns =
     [
      \<comment> \<open>guaranteed\s+(?:returns?|profit|money)\<close>
      Seq [lit ''guaranteed'', Plus Space, Alt [Seq [lit ''return'', Opt (lit ''s'')],
       lit ''profit'', lit ''money'']],
      \<comment> \<open>risk\s*-?\s*free\s+investment\<close>
      Seq [lit ''risk'', Star Space, Opt (lit ''-''), Star Space, lit ''free'', Plus Space,
       lit ''investment''],
      \<comment> \<open>double\s+your\s+money\<close>
      Seq [lit ''double'', Plus Space, lit ''your'', Plus Space, lit ''money''],
      \<comment> \<open>act\s+now\s+or\s+lose\s+out\<close>
      Seq [lit ''act'', Plus Space, lit ''now'', Plus Space, lit ''or'', Plus Space, lit ''lose'',
       Plus Space, lit ''out''],
      \<comment> \<open>limited\s+time\s+offer\s+expires?\<close>
      Seq [lit ''limited'', Plus Space, lit ''time'', Plus Space, lit ''offer'', Plus Space,
       lit ''expire'', Opt (lit ''s'')],
      \<comment> \<open>urgent\s+action\s+required\<close>
      Seq [lit ''urgent'', Plus Space, lit ''action'', Plus Space, lit ''required''],
      \<comment> \<open>verify\s+your\s+account\s+immediately\<close>
      Seq [lit ''verify'', Plus Space, lit ''your'', Plus Space, lit ''account'', Plus Space,
       lit ''immediately''],
      \<comment> \<open>suspended\s+account\s+warning\<close>
      Seq [lit ''suspended'', Plus Space, lit ''account'', Plus Space, lit ''warning''],
      \<comment> \<open>click\s+here\s+to\s+claim\<close>
      Seq [lit ''click'', Plus Space, lit ''here'', Plus Space, lit ''to'', Plus Space,
       lit ''claim''],
      \<comment> \<open>you\s+(?:have\s+)?won\s+\$?\d+\<close>
      Seq [lit ''you'', Plus Space, Opt (Seq [lit ''have'', Plus Space]), lit ''won'', Plus Space,
       Opt (lit ''$''), Plus Digit],
      \<comment> \<open>make\s+money\s+(?:fast|quickly|easy)\<close>
      Seq [lit ''make'', Plus Space, lit ''money'', Plus Space, Alt [lit ''fast'',
       lit ''quickly'', lit ''easy'']],
      \<comment> \<open>work\s+from\s+home\s+opportunity\<close>
      Seq [lit ''work'', Plus Space, lit ''from'', Plus Space, lit ''home'', Plus Space,
       lit ''opportunity''],
      \<comment> \<open>investment\s+opportunity\<close>
      Seq [lit ''investment'', Plus Space, lit ''opportunity''],
      \<comment> \<open>bitcoin\s+(?:investment|trading|giveaway)\<close>
      Seq [lit ''bitcoin'', Plus Space, Alt [lit ''investment'', lit ''trading'',
       lit ''giveaway'']],
      \<comment> \<open>cryptocurrency\s+offer\<close>
      Seq [lit ''cryptocurrency'', Plus Space, lit ''offer''],
      \<comment> \<open>need\s+money\s+for\s+emergency\<close>
      Seq [lit ''need'', Plus Space, lit ''money'', Plus Space, lit ''for'', Plus Space,
       lit ''emergency''],
      \<comment> \<open>western\s+union\s+transfer\<close>
      Seq [lit ''western'', Plus Space, lit ''union'', Plus Space, lit ''transfer''],
      \<comment> \<open>gift\s+card\s+payment\<close>
      Seq [lit ''gift'', Plus Space, lit ''card'', Plus Space, lit ''payment''],
      \<comment> \<open>confirm\s+your\s+(?:identity|details)\<close>
      Seq [lit ''confirm'', Plus Space, lit ''your'', Plus Space, Alt [lit ''identity'',
       lit ''details'']],
      \<comment> \<open>update\s+your\s+payment\s+method\<close>
      Seq [lit ''update'', Plus Space, lit ''your'', Plus Space, lit ''payment'', Plus Space,
       lit ''method''],
      \<comment> \<open>special\s+offer\s+for\s+you\<close>
      Seq [lit ''special'', Plus Space, lit ''offer'', Plus Space, lit ''for'', Plus Space,
       lit ''you''],
      \<comment> \<open>exclusive\s+deal\<close>
      Seq [lit ''exclusive'', Plus Space, lit ''deal''],
      \<comment> \<open>congratulations\s+you\s+qualify\<close>
      Seq [lit ''congratulations'', Plus Space, lit ''you'', Plus Space, lit ''qualify''],
      \<comment> \<open>pre\s*-?\s*approved\<close>
      Seq [lit ''pre'', Star Space, Opt (lit ''-''), Star Space, lit ''approved''],
      \<comment> \<open>no\s+credit\s+check\<close>
      Seq [lit ''no'', Plus Space, lit ''credit'', Plus Space, lit ''check''],
      \<comment> \<open>call\s+(?:now|today)\<close>
      Seq [lit ''call'', Plus Space, Alt [lit ''now'', lit ''today'']],
      \<comment> \<open>limited\s+(?:spots|availability)\<close>
      Seq [lit ''limited'', Plus Space, Alt [lit ''spots'', lit ''availability'']],
      \<comment> \<open>don\'?t\s+miss\s+out\<close>
      Seq [lit ''don'', Opt (Sym (Chr (CHR 0x27))), lit ''t'', Plus Space, lit ''miss'',
       Plus Space, lit ''out'']
     ]\<close>

text \<open>\<open>_get_pattern_weight\<close>: a uniform draw in the band of the pattern's index.\<close>

definition get_pattern_weight :: "'g numpy_random \<Rightarrow> nat \<Rightarrow> 'g \<Rightarrow> real \<times> 'g" where
  "get_pattern_weight np pattern_index g =
     (if pattern_index < 10 then np_uniform np 0.8 0.95 g
      else if pattern_index < 20 then np_uniform np 0.6 0.79 g
      else np_uniform np 0.4 0.59 g)"

text \<open>
  The comprehension that compiles the patterns and draws their weights, with the names
  of the module as a parameter: each round reads the name \<open>re\<close> first, for
  \<open>re.compile(pattern, re.IGNORECASE)\<close>, and then draws the weight.
\<close>

fun compile_with_weights ::
  "string list \<Rightarrow> 'g numpy_random \<Rightarrow> nat \<Rightarrow> regex list \<Rightarrow> 'g
     \<Rightarrow> string + ((regex \<times> real) list \<times> 'g)"
where
  "compile_with_weights names np i [] g = Inr ([], g)"
| "compile_with_weights names np i (p # ps) g =
     (case lookup_name names ''re'' of
        Inl e \<Rightarrow> Inl e
      | Inr _ \<Rightarrow>
          (let (w, g') = get_pattern_weight np i g
           in case compile_with_weights names np (Suc i) ps g' of
                Inl e \<Rightarrow> Inl e
              | Inr (rest, g'') \<Rightarrow> Inr ((re_compile p, w) # rest, g'')))"

text \<open>
  \<open>ScamPatternSimulator.__init__\<close> sets the attributes \<open>scam_patterns\<close> and
  \<open>compiled_patterns\<close>, and no others; an exception of the comprehension ends it.
\<close>

definition ScamPatternSimulator_init ::
  "string list \<Rightarrow> 'g numpy_random \<Rightarrow> 'g \<Rightarrow> string + (py_instance \<times> 'g)"
where
  "ScamPatternSimulator_init names np g =
     (case compile_with_weights names np 0 scam_patterns g of
        Inl e \<Rightarrow> Inl e
      | Inr (compiled, g') \<Rightarrow>
          Inr ([(''scam_patterns'', PatternList scam_patterns),
                (''compiled_patterns'', WeightedPatterns compiled)], g'))"

text \<open>
  Loading the module: the class bodies run, then
  \<open>pattern_simulator = ScamPatternSimulator()\<close>. The body of \<open>BERTScamClassifier\<close> has
  the annotation \<open>Dict[str, Any]\<close> on \<open>get_model_info\<close>; an interpreter that evaluates
  annotations when a function is defined (Python before 3.14) reads the name \<open>Any\<close>
  there. The result is the instance bound to \<open>pattern_simulator\<close>, or the exception
  that ends the import.
\<close>

definition load_bert_classifier_module ::
  "bool \<Rightarrow> 'g numpy_random \<Rightarrow> 'g \<Rightarrow> string + (py_instance \<times> 'g)"
where
  "load_bert_classifier_module annotations_evaluated np g =
     (case (if annotations_evaluated then lookup_name bert_classifier_module_names ''Any''
            else Inr ()) of
        Inl e \<Rightarrow> Inl e
      | Inr _ \<Rightarrow> ScamPatternSimulator_init bert_classifier_module_names np g)"

text \<open>
  \<open>ScamPatternSimulator.simulate_bert_prediction\<close>: the call goes to the attribute
  \<open>advanced_simulator\<close>; any exception gives the fixed result of the handler. An
  attribute that is not a simulator has no method to call, which is an exception too.
\<close>

definition ScamPatternSimulator_simulate_bert_prediction :: "py_instance \<Rightarrow> string \<Rightarrow> BertResult" where
  "ScamPatternSimulator_simulate_bert_prediction self text =
     (let handler_result =
            \<lparr> scam_probability = Some 0.1, confidence = Some 0.5,
              prediction = Some ''not_scam'', model_type = None, matched_patterns = None,
              error_message = None \<rparr>
      in case getattr self ''advanced_simulator'' of
           Inl e \<Rightarrow> handler_result
         | Inr (Simulator advanced_simulator) \<Rightarrow> advanced_simulator text
         | Inr _ \<Rightarrow> handler_result)"

section \<open>Queue store (app/services/redis\_service.py)\<close>

text \<open>
  Time is an external reading of the clock, in seconds: every function that calls
  \<open>datetime.now()\<close> takes the reading as an argument, and the store takes the time of a
  command.
\<close>

type_synonym seconds = real

text \<open>
  The results that are stored and returned are dictionaries. These are their top-level
  keys, \<open>None\<close> for an absent key; \<open>payload\<close> stands for the keys \<open>analysis\<close>,
  \<open>preprocessing\<close>, \<open>model_predictions\<close>, \<open>explanation\<close> and \<open>user_context\<close> of a
  successful analysis, whose values are kept abstract.
\<close>

record 'r ResultDict =
  status :: "string option"
  error :: "string option"
  payload :: "'r option"
  timestamp :: "seconds option"
  processing_time :: "seconds option"
  cached_at :: "seconds option"
  expires_at :: "seconds option"
  retrieved_at :: "seconds option"
  retry_count :: "int option"
  failed_at :: "seconds option"

definition empty_dict :: "'r ResultDict" where
  "empty_dict =
     \<lparr> status = None, error = None, payload = None, timestamp = None, processing_time = None,
       cached_at = None, expires_at = None, retrieved_at = None, retry_count = None,
       failed_at = None \<rparr>"

text \<open>
  A queue item is a dictionary; these are the keys that the scan processor reads or
  writes, \<open>None\<close> for an absent key. The key \<open>text\<close> is the field \<open>item_text\<close>.
\<close>

record QueueItem =
  request_id :: "string option"
  item_text :: "string option"
  priority :: "string option"
  retry_count :: "int option"
  last_error :: "string option"
  retry_at :: "seconds option"
  queued_at :: "seconds option"

text \<open>
  The Redis service as its callers see it: the connection flag, the lists used as
  queues (\<open>lpush\<close> adds at the front, \<open>brpop\<close> takes from the back) and the \<open>SET\<close>
  commands carried out, newest first, each with its key, its value and the time at
  which the key expires.
\<close>

record 'r RedisService =
  is_connected :: bool
  queues :: "string \<Rightarrow> QueueItem list"
  cache_log :: "(string \<times> 'r ResultDict \<times> seconds) list"

definition add_to_queue ::
  "'r RedisService \<Rightarrow> string \<Rightarrow> QueueItem \<Rightarrow> bool \<times> 'r RedisService"
where
  "add_to_queue rs queue_name item =
     (if \<not> is_connected rs then (False, rs)
      else (True, rs\<lparr>queues := (queues rs)(queue_name := item # queues rs queue_name)\<rparr>))"


text \<open>\<open>set_cache(key, value, expire)\<close>, carried out at the time \<open>now\<close>.\<close>

definition set_cache ::
  "'r RedisService \<Rightarrow> seconds \<Rightarrow> string \<Rightarrow> 'r ResultDict \<Rightarrow> nat \<Rightarrow> bool \<times> 'r RedisService"
where
  "set_cache rs now key v expire =
     (if \<not> is_connected rs then (False, rs)
      else (True, rs\<lparr>cache_log := (key, v, now + real expire) # cache_log rs\<rparr>))"




section \<open>Detection service (app/services/detection\_service.py)\<close>

text \<open>The dictionary \<open>performance_metrics\<close>.\<close>

record DetectionService =
  total_requests :: nat
  cache_hits :: nat
  cache_misses :: nat
  avg_response_time :: real
  error_count :: nat




section \<open>Scan processor (app/workers/scan\_processor.py)\<close>

text \<open>
  The processor with the two module-level services it works on, \<open>redis_service\<close> and
  \<open>detection_service\<close>.
\<close>

record 'r ScanProcessor =
  processed_count :: nat
  error_count :: nat
  redis_service :: "'r RedisService"
  detection_service :: DetectionService

definition scan_queue :: string where "scan_queue = ''scan_requests''"
definition batch_queue :: string where "batch_queue = ''batch_requests''"
definition priority_queue :: string where "priority_queue = ''priority_requests''"


definition scan_result_key :: "string \<Rightarrow> string" where
  "scan_result_key rid = ''scan_result:'' @ rid"

text \<open>\<open>_store_scan_result\<close>: the result is kept for an hour.\<close>

definition store_scan_result ::
  "seconds \<Rightarrow> 'r ScanProcessor \<Rightarrow> string \<Rightarrow> 'r ResultDict \<Rightarrow> 'r ScanProcessor"
where
  "store_scan_result now self rid result =
     self\<lparr>redis_service :=
            snd (set_cache (redis_service self) now (scan_result_key rid) result 3600)\<rparr>"

text \<open>\<open>item.get("retry_count", 0)\<close>.\<close>

definition get_retry_count :: "QueueItem \<Rightarrow> int" where
  "get_retry_count item = (case QueueItem.retry_count item of Some n \<Rightarrow> n | None \<Rightarrow> 0)"

text \<open>
  \<open>_handle_scan_retry\<close>, with \<open>max_retries = 3\<close>; the delay of a retry is
  \<open>retry_count + 1\<close> minutes.
\<close>

definition handle_scan_retry ::
  "seconds \<Rightarrow> 'r ScanProcessor \<Rightarrow> QueueItem \<Rightarrow> string \<Rightarrow> 'r ScanProcessor"
where
  "handle_scan_retry now self item err =
     (let retry_count = get_retry_count item;
          max_retries = 3
      in
        if retry_count < max_retries
        then
          let item' = item\<lparr>QueueItem.retry_count := Some (retry_count + 1),
                            last_error := Some err,
                            retry_at := Some (now + 60 * real_of_int (retry_count + 1))\<rparr>;
              queue_name = (if priority item = Some ''high'' then priority_queue else scan_queue)
          in self\<lparr>redis_service := snd (add_to_queue (redis_service self) queue_name item')\<rparr>
        else
          let error_result = empty_dict\<lparr>status := Some ''failed'', error := Some err,
                                         ResultDict.retry_count := Some retry_count,
                                         failed_at := Some now\<rparr>
          in (case request_id item of
                Some rid \<Rightarrow>
                  if rid \<noteq> [] then store_scan_result now self rid error_result else self
              | None \<Rightarrow> self))"







section \<open>Ensemble scorer (app/scoring/ensemble\_scorer.py)\<close>

record 'm ModelPrediction =
  model_name :: string
  score :: real
  confidence :: real
  metadata :: 'm
  processing_time :: real

text \<open>\<open>Settings.ENSEMBLE_WEIGHTS\<close> of app/core/config.py.\<close>

definition ENSEMBLE_WEIGHTS :: "real dict" where
  "ENSEMBLE_WEIGHTS =
     [(''bert'', 0.4), (''pattern'', 0.3), (''sentiment'', 0.15), (''ner'', 0.15)]"

text \<open>The attributes of \<open>EnsembleScorer\<close> that the scoring functions read.\<close>

record EnsembleScorer =
  model_weights :: "real dict"
  risk_thresholds :: "real dict"
  bert_loaded :: bool

definition EnsembleScorer_init :: "bool \<Rightarrow> EnsembleScorer" where
  "EnsembleScorer_init bert_available =
     \<lparr> model_weights = ENSEMBLE_WEIGHTS,
       risk_thresholds =
         [(''critical'', 0.9), (''high'', 0.7), (''medium'', 0.5), (''low'', 0.3)],
       bert_loaded = bert_available \<rparr>"

text \<open>
  \<open>_determine_risk_level\<close>. The subscript \<open>self.risk_thresholds["critical"]\<close> raises
  \<open>KeyError\<close> on a missing key; that is the \<open>None\<close> result here.
\<close>

definition determine_risk_level :: "EnsembleScorer \<Rightarrow> real \<Rightarrow> string option" where
  "determine_risk_level self s =
     (case map_of (risk_thresholds self) ''critical'' of None \<Rightarrow> None | Some t_critical \<Rightarrow>
        if s \<ge> t_critical then Some ''critical'' else
     (case map_of (risk_thresholds self) ''high'' of None \<Rightarrow> None | Some t_high \<Rightarrow>
        if s \<ge> t_high then Some ''high'' else
     (case map_of (risk_thresholds self) ''medium'' of None \<Rightarrow> None | Some t_medium \<Rightarrow>
        if s \<ge> t_medium then Some ''medium'' else
     (case map_of (risk_thresholds self) ''low'' of None \<Rightarrow> None | Some t_low \<Rightarrow>
        if s \<ge> t_low then Some ''low'' else Some ''minimal''))))"

text \<open>
  The loop of \<open>_calculate_ensemble_score\<close>: the accumulators are
  \<open>total_weighted_score\<close>, \<open>total_weight\<close> and \<open>confidence_scores\<close>.
\<close>

fun score_loop ::
  "real dict \<Rightarrow> 'm ModelPrediction list \<Rightarrow> real \<times> real \<times> real list \<Rightarrow> real \<times> real \<times> real list"
where
  "score_loop w [] acc = acc"
| "score_loop w (pred # preds) (total_weighted_score, total_weight, confidence_scores) =
     (let model_weight = dict_get w (model_name pred) 0.1;
          effective_weight = model_weight * confidence pred
      in score_loop w preds
           (total_weighted_score + score pred * effective_weight,
            total_weight + effective_weight,
            confidence_scores @ [confidence pred]))"

definition calculate_ensemble_score ::
  "EnsembleScorer \<Rightarrow> 'm ModelPrediction list \<Rightarrow> real \<times> real"
where
  "calculate_ensemble_score self predictions =
     (if predictions = [] then (0, 0)
      else
        (case score_loop (model_weights self) predictions (0, 0, []) of
           (total_weighted_score, total_weight, confidence_scores) \<Rightarrow>
             let final_score =
                   (if total_weight > 0 then total_weighted_score / total_weight
                    else np_mean (map score predictions));
                 avg_confidence =
                   (if confidence_scores \<noteq> [] then np_mean confidence_scores else 0);
                 confidence_variance =
                   (if length confidence_scores > 1 then np_var confidence_scores else 0);
                 disagreement_penalty = min 0.3 (confidence_variance * 2);
                 ensemble_confidence = max 0.1 (avg_confidence - disagreement_penalty)
             in (final_score, ensemble_confidence)))"

text \<open>
  \<open>update_weights\<close>: the result is the returned flag and the stored weights afterwards.
  Both \<open>ValueError\<close>s are caught by the method's own handler, which returns \<open>False\<close>
  and leaves the stored weights as they were.
\<close>

definition update_weights :: "EnsembleScorer \<Rightarrow> real dict \<Rightarrow> bool \<times> EnsembleScorer" where
  "update_weights self new_weights =
     (if \<not> list_all (\<lambda>weight. 0 \<le> weight \<and> weight \<le> 1) (dict_values new_weights)
      then (False, self)
      else
        let total_weight = sum_list (dict_values new_weights) in
        if total_weight > 0
        then
          let normalized_weights = map (\<lambda>(k, v). (k, v / total_weight)) new_weights
          in (True, self\<lparr>model_weights := dict_update (model_weights self) normalized_weights\<rparr>)
        else (False, self))"

text \<open>
  The effective weight of one prediction in the loop above: its configured weight (0.1
  for a source that the configuration does not name) times its confidence.
\<close>

definition effective_weight_of :: "real dict \<Rightarrow> 'm ModelPrediction \<Rightarrow> real" where
  "effective_weight_of w p = dict_get w (model_name p) 0.1 * confidence p"

text \<open>The weight configuration holds no negative weight.\<close>

definition weights_nonneg :: "real dict \<Rightarrow> bool" where
  "weights_nonneg w = list_all (\<lambda>v. 0 \<le> v) (dict_values w)"

text \<open>
  \<open>_get_bert_prediction\<close>. The real classifier is a parameter: it returns its result, or
  the text of the exception it raised. \<open>pattern_simulator\<close> is the module's instance of
  \<open>ScamPatternSimulator\<close>. The elapsed time is a reading of the clock.
\<close>

datatype prediction_metadata = BertMetadata BertResult | ErrorMetadata string

definition get_bert_prediction ::
  "EnsembleScorer \<Rightarrow> (string \<Rightarrow> string + BertResult) \<Rightarrow> py_instance \<Rightarrow> string \<Rightarrow> real
     \<Rightarrow> prediction_metadata ModelPrediction"
where
  "get_bert_prediction self bert_classifier_predict_single pattern_simulator text elapsed =
     (let outcome =
            (if bert_loaded self then bert_classifier_predict_single text
             else Inr (ScamPatternSimulator_simulate_bert_prediction pattern_simulator text))
      in case outcome of
           Inr result \<Rightarrow>
             \<lparr> model_name = ''bert'',
               score = (case scam_probability result of Some x \<Rightarrow> x | None \<Rightarrow> 0),
               confidence = (case BertResult.confidence result of Some x \<Rightarrow> x | None \<Rightarrow> 0),
               metadata = BertMetadata result,
               processing_time = elapsed \<rparr>
         | Inl e \<Rightarrow>
             \<lparr> model_name = ''bert'', score = 0, confidence = 0,
               metadata = ErrorMetadata e, processing_time = elapsed \<rparr>)"

text \<open>
  The way to a \<open>bert\<close> prediction from a fresh interpreter: the ensemble module first
  imports \<open>bert_classifier\<close> and \<open>pattern_simulator\<close> from app/models/bert\_classifier.py,
  and an exception of that import ends it.
\<close>

definition import_bert_prediction ::
  "bool \<Rightarrow> 'g numpy_random \<Rightarrow> 'g \<Rightarrow> EnsembleScorer \<Rightarrow> (string \<Rightarrow> string + BertResult) \<Rightarrow> string
     \<Rightarrow> real \<Rightarrow> string + prediction_metadata ModelPrediction"
where
  "import_bert_prediction annotations_evaluated np g self bert_classifier_predict_single text
       elapsed =
     (case load_bert_classifier_module annotations_evaluated np g of
        Inl e \<Rightarrow> Inl e
      | Inr (pattern_simulator, g') \<Rightarrow>
          Inr (get_bert_prediction self bert_classifier_predict_single pattern_simulator text
                 elapsed))"

section \<open>Risk tier\<close>

text \<open>
  C1. With the thresholds set by the constructor, the risk tier of a score is
  \<open>critical\<close> from 0.9, \<open>high\<close> from 0.7, \<open>medium\<close> from 0.5, \<open>low\<close> from 0.3 and
  \<open>minimal\<close> below; 0.70 is \<open>high\<close> and 0.6999 is \<open>medium\<close>.
\<close>

theorem risk_level_step_function:
  "determine_risk_level (EnsembleScorer_init b) s =
     Some (if s \<ge> 0.9 then ''critical''
           else if s \<ge> 0.7 then ''high''
           else if s \<ge> 0.5 then ''medium''
           else if s \<ge> 0.3 then ''low''
           else ''minimal'')
   \<and> determine_risk_level (EnsembleScorer_init b) 0.70 = Some ''high''
   \<and> determine_risk_level (EnsembleScorer_init b) 0.6999 = Some ''medium''"
  by (simp add: determine_risk_level_def EnsembleScorer_init_def)

section \<open>Ensemble score and confidence\<close>

subsection \<open>The loop in closed form\<close>

lemma score_loop_sums:
  "score_loop w preds (a, b, cs) =
     (a + sum_list (map (\<lambda>p. score p * effective_weight_of w p) preds),
      b + sum_list (map (effective_weight_of w) preds),
      cs @ map confidence preds)"
  by (induction preds arbitrary: a b cs) (simp_all add: effective_weight_of_def Let_def algebra_simps)

lemma final_score_eq:
  "preds \<noteq> [] \<Longrightarrow>
   fst (calculate_ensemble_score self preds) =
     (if 0 < sum_list (map (effective_weight_of (model_weights self)) preds)
      then sum_list (map (\<lambda>p. score p * effective_weight_of (model_weights self) p) preds)
           / sum_list (map (effective_weight_of (model_weights self)) preds)
      else np_mean (map score preds))"
  by (simp add: calculate_ensemble_score_def score_loop_sums Let_def)

lemma np_var_short: "length xs \<le> 1 \<Longrightarrow> np_var xs = 0"
  by (cases xs) (auto simp: np_var_def np_mean_def)

lemma ensemble_confidence_eq:
  "preds \<noteq> [] \<Longrightarrow>
   snd (calculate_ensemble_score self preds) =
     max 0.1 (np_mean (map confidence preds) - min 0.3 (2 * np_var (map confidence preds)))"
  by (simp add: calculate_ensemble_score_def score_loop_sums Let_def np_var_short mult.commute)

lemma dict_get_nonneg:
  "weights_nonneg w \<Longrightarrow> 0 \<le> dict_get w k 0.1"
  by (auto simp: weights_nonneg_def dict_get_def dict_values_def list_all_iff
      split: option.splits dest!: map_of_SomeD)

lemma effective_weight_nonneg:
  "weights_nonneg w \<Longrightarrow> 0 \<le> confidence p \<Longrightarrow> 0 \<le> effective_weight_of w p"
  by (simp add: effective_weight_of_def dict_get_nonneg)

lemma total_weight_nonneg:
  "weights_nonneg w \<Longrightarrow> \<forall>p\<in>set preds. 0 \<le> confidence p \<Longrightarrow>
   0 \<le> sum_list (map (effective_weight_of w) preds)"
  by (induction preds) (simp_all add: effective_weight_nonneg)

lemma total_weight_zero:
  "\<forall>p\<in>set preds. confidence p = 0 \<Longrightarrow> sum_list (map (effective_weight_of w) preds) = 0"
  by (induction preds) (simp_all add: effective_weight_of_def)

subsection \<open>Weights stay non-negative\<close>

text \<open>
  The configured weights are non-negative, and \<open>update_weights\<close> keeps them so: it
  stores only quotients of weights in \<open>[0, 1]\<close> by their positive sum.
\<close>

lemma ENSEMBLE_WEIGHTS_nonneg: "weights_nonneg (model_weights (EnsembleScorer_init b))"
  by (simp add: weights_nonneg_def dict_values_def EnsembleScorer_init_def ENSEMBLE_WEIGHTS_def)

lemma weights_nonneg_update:
  "weights_nonneg d \<Longrightarrow> 0 \<le> v \<Longrightarrow> weights_nonneg (AList.update k v d)"
  by (induction d) (auto simp: weights_nonneg_def dict_values_def)

lemma weights_nonneg_dict_update:
  "weights_nonneg d \<Longrightarrow> weights_nonneg e \<Longrightarrow> weights_nonneg (dict_update d e)"
  unfolding dict_update_def
proof (induction e arbitrary: d)
  case Nil
  then show ?case by simp
next
  case (Cons x e)
  obtain k v where x: "x = (k, v)" by (cases x)
  from Cons.prems have v: "0 \<le> v" and e: "weights_nonneg e"
    by (simp_all add: x weights_nonneg_def dict_values_def)
  from Cons.prems(1) v have "weights_nonneg (AList.update k v d)"
    by (rule weights_nonneg_update)
  from Cons.IH [OF this e] show ?case by (simp add: x)
qed

lemma update_weights_keeps_nonneg:
  "weights_nonneg (model_weights self) \<Longrightarrow>
   weights_nonneg (model_weights (snd (update_weights self new_weights)))"
  apply (simp add: update_weights_def Let_def)
  apply (intro impI weights_nonneg_dict_update)
   apply assumption
  apply (auto simp: weights_nonneg_def dict_values_def list_all_iff)
  done

subsection \<open>Final score\<close>

text \<open>
  C2. For a non-empty list of predictions the final score is the confidence-weighted mean
  \<open>\<Sum> score\<^sub>i * weight\<^sub>i * confidence\<^sub>i / \<Sum> weight\<^sub>i * confidence\<^sub>i\<close> with the
  configured weights whenever the total effective weight is positive, and the unweighted
  mean of the scores when the total is zero, in particular when every confidence is
  zero. With non-negative weights and confidences the total is never negative, so the
  two cases are all there is.
\<close>

theorem ensemble_final_score_weighted_mean:
  fixes preds :: "'m ModelPrediction list"
  assumes "preds \<noteq> []"
  shows "(0 < sum_list (map (effective_weight_of (model_weights self)) preds) \<longrightarrow>
            fst (calculate_ensemble_score self preds) =
              sum_list (map (\<lambda>p. score p * effective_weight_of (model_weights self) p) preds)
              / sum_list (map (effective_weight_of (model_weights self)) preds))
       \<and> (sum_list (map (effective_weight_of (model_weights self)) preds) = 0 \<longrightarrow>
            fst (calculate_ensemble_score self preds) = np_mean (map score preds))
       \<and> ((\<forall>p\<in>set preds. confidence p = 0) \<longrightarrow>
            fst (calculate_ensemble_score self preds) = np_mean (map score preds))
       \<and> (weights_nonneg (model_weights self) \<and> (\<forall>p\<in>set preds. 0 \<le> confidence p) \<longrightarrow>
            0 \<le> sum_list (map (effective_weight_of (model_weights self)) preds))"
  using assms by (simp add: final_score_eq total_weight_zero total_weight_nonneg)

theorem ensemble_final_score_weighted_mean_witness:
  "fst (calculate_ensemble_score (EnsembleScorer_init False)
     [\<lparr>model_name = ''bert'', score = 0.1, confidence = 0.5, metadata = (), processing_time = 0\<rparr>,
      \<lparr>model_name = ''pattern'', score = 0.9, confidence = 0.9, metadata = (), processing_time = 0\<rparr>])
     = (0.1 * (0.4 * 0.5) + 0.9 * (0.3 * 0.9)) / (0.4 * 0.5 + 0.3 * 0.9)
   \<and> fst (calculate_ensemble_score (EnsembleScorer_init False)
     [\<lparr>model_name = ''bert'', score = 0.2, confidence = 0, metadata = (), processing_time = 0\<rparr>,
      \<lparr>model_name = ''pattern'', score = 0.6, confidence = 0, metadata = (), processing_time = 0\<rparr>])
     = (0.2 + 0.6) / 2"
  using ensemble_final_score_weighted_mean [of
     "[\<lparr>model_name = ''bert'', score = 0.1, confidence = 0.5, metadata = (), processing_time = 0\<rparr>,
      \<lparr>model_name = ''pattern'', score = 0.9, confidence = 0.9, metadata = (), processing_time = 0\<rparr>]"
     "EnsembleScorer_init False"]
    ensemble_final_score_weighted_mean [of
     "[\<lparr>model_name = ''bert'', score = 0.2, confidence = 0, metadata = (), processing_time = 0\<rparr>,
      \<lparr>model_name = ''pattern'', score = 0.6, confidence = 0, metadata = (), processing_time = 0\<rparr>]"
     "EnsembleScorer_init False"]
  by (simp add: effective_weight_of_def dict_get_def EnsembleScorer_init_def ENSEMBLE_WEIGHTS_def
      np_mean_def)

text \<open>
  C3. Raising the score of one prediction, all other scores and every confidence kept,
  never lowers the final score. Predictions carry confidences that are not negative, and
  the weight configuration is non-negative (it is initially, and \<open>update_weights\<close>
  keeps it so).
\<close>

theorem ensemble_final_score_monotone:
  fixes p :: "'m ModelPrediction"
  assumes w: "weights_nonneg (model_weights self)"
    and c: "\<forall>q\<in>set (xs @ p # ys). 0 \<le> confidence q"
    and s: "score p \<le> s'"
  shows "fst (calculate_ensemble_score self (xs @ p # ys))
       \<le> fst (calculate_ensemble_score self (xs @ p\<lparr>score := s'\<rparr> # ys))"
proof -
  let ?w = "model_weights self"
  let ?p' = "p\<lparr>score := s'\<rparr>"
  have e: "effective_weight_of ?w ?p' = effective_weight_of ?w p"
    by (simp add: effective_weight_of_def)
  have e0: "0 \<le> effective_weight_of ?w p"
    using w c by (simp add: effective_weight_nonneg)
  have W: "sum_list (map (effective_weight_of ?w) (xs @ ?p' # ys))
         = sum_list (map (effective_weight_of ?w) (xs @ p # ys))"
    by (simp add: e)
  have S: "sum_list (map (\<lambda>q. score q * effective_weight_of ?w q) (xs @ p # ys))
         \<le> sum_list (map (\<lambda>q. score q * effective_weight_of ?w q) (xs @ ?p' # ys))"
    using s e0 by (simp add: e mult_right_mono)
  have M: "np_mean (map score (xs @ p # ys)) \<le> np_mean (map score (xs @ ?p' # ys))"
    using s by (simp add: np_mean_def divide_right_mono)
  show ?thesis
  proof (cases "0 < sum_list (map (effective_weight_of ?w) (xs @ p # ys))")
    case True
    then show ?thesis
      using S by (simp add: final_score_eq W divide_right_mono del: map_append list.map sum_list_append sum_list.Cons)
  next
    case False
    then show ?thesis
      using M by (simp add: final_score_eq W del: map_append list.map sum_list_append sum_list.Cons)
  qed
qed

theorem ensemble_final_score_monotone_witness:
  "fst (calculate_ensemble_score (EnsembleScorer_init False)
     ([\<lparr>model_name = ''bert'', score = 0.1, confidence = 0.5, metadata = (), processing_time = 0\<rparr>]
      @ \<lparr>model_name = ''pattern'', score = 0.4, confidence = 0.9, metadata = (), processing_time = 0\<rparr>
      # []))
   \<le> fst (calculate_ensemble_score (EnsembleScorer_init False)
     ([\<lparr>model_name = ''bert'', score = 0.1, confidence = 0.5, metadata = (), processing_time = 0\<rparr>]
      @ \<lparr>model_name = ''pattern'', score = 0.4, confidence = 0.9, metadata = (), processing_time = 0\<rparr>
          \<lparr>score := 0.9\<rparr>
      # []))"
  using ensemble_final_score_monotone [of "EnsembleScorer_init False"
     "[\<lparr>model_name = ''bert'', score = 0.1, confidence = 0.5, metadata = (), processing_time = 0\<rparr>]"
     "\<lparr>model_name = ''pattern'', score = 0.4, confidence = 0.9, metadata = (), processing_time = 0\<rparr>"
     "[]" "0.9"]
  by (simp add: weights_nonneg_def dict_values_def EnsembleScorer_init_def ENSEMBLE_WEIGHTS_def)

subsection \<open>Ensemble confidence\<close>

text \<open>
  C4. For a non-empty list of predictions the ensemble confidence is the mean of the
  confidences minus \<open>min 0.3 (2 * variance)\<close>, floored at 0.1; so of two inputs with the
  same mean confidence, the one with the larger variance never gets the larger ensemble
  confidence.
\<close>

theorem ensemble_confidence_variance_penalty:
  fixes preds preds' :: "'m ModelPrediction list"
  assumes "preds \<noteq> []" and "preds' \<noteq> []"
  shows "snd (calculate_ensemble_score self preds) =
           max 0.1 (np_mean (map confidence preds) - min 0.3 (2 * np_var (map confidence preds)))
       \<and> (np_mean (map confidence preds) = np_mean (map confidence preds') \<and>
          np_var (map confidence preds) \<le> np_var (map confidence preds') \<longrightarrow>
            snd (calculate_ensemble_score self preds') \<le> snd (calculate_ensemble_score self preds))"
  using assms by (auto simp add: ensemble_confidence_eq min_def max_def)

theorem ensemble_confidence_variance_penalty_witness:
  "snd (calculate_ensemble_score (EnsembleScorer_init False)
     [\<lparr>model_name = ''bert'', score = 0.1, confidence = 0.5, metadata = (), processing_time = 0\<rparr>,
      \<lparr>model_name = ''pattern'', score = 0.9, confidence = 0.5, metadata = (), processing_time = 0\<rparr>])
     = 0.5
   \<and> snd (calculate_ensemble_score (EnsembleScorer_init False)
     [\<lparr>model_name = ''bert'', score = 0.1, confidence = 0.2, metadata = (), processing_time = 0\<rparr>,
      \<lparr>model_name = ''pattern'', score = 0.9, confidence = 0.8, metadata = (), processing_time = 0\<rparr>])
     \<le> snd (calculate_ensemble_score (EnsembleScorer_init False)
     [\<lparr>model_name = ''bert'', score = 0.1, confidence = 0.5, metadata = (), processing_time = 0\<rparr>,
      \<lparr>model_name = ''pattern'', score = 0.9, confidence = 0.5, metadata = (), processing_time = 0\<rparr>])"
  using ensemble_confidence_variance_penalty [of
     "[\<lparr>model_name = ''bert'', score = 0.1, confidence = 0.5, metadata = (), processing_time = 0\<rparr>,
      \<lparr>model_name = ''pattern'', score = 0.9, confidence = 0.5, metadata = (), processing_time = 0\<rparr>]"
     "[\<lparr>model_name = ''bert'', score = 0.1, confidence = 0.2, metadata = (), processing_time = 0\<rparr>,
      \<lparr>model_name = ''pattern'', score = 0.9, confidence = 0.8, metadata = (), processing_time = 0\<rparr>]"
     "EnsembleScorer_init False"]
  by (simp add: np_mean_def np_var_def power2_eq_square)

subsection \<open>Updating the weights\<close>

text \<open>
  C5. \<open>update_weights\<close> normalises the weights it is given and merges them into the
  stored ones. Updating only \<open>bert\<close> on the initial configuration succeeds and stores
  \<open>bert = 1\<close> beside the untouched 0.3, 0.15 and 0.15: the stored weights sum to 1.6.
\<close>

theorem update_weights_partial_not_normalized:
  "update_weights (EnsembleScorer_init b) [(''bert'', 0.5)] =
     (True, (EnsembleScorer_init b)\<lparr>model_weights :=
        [(''bert'', 1), (''pattern'', 0.3), (''sentiment'', 0.15), (''ner'', 0.15)]\<rparr>)
   \<and> sum_list (dict_values (model_weights (snd (update_weights (EnsembleScorer_init b) [(''bert'', 0.5)])))) = 1.6
   \<and> sum_list (dict_values (model_weights (snd (update_weights (EnsembleScorer_init b) [(''bert'', 0.5)])))) \<noteq> 1"
  by (simp add: update_weights_def EnsembleScorer_init_def ENSEMBLE_WEIGHTS_def dict_update_def dict_values_def)

section \<open>Pattern matches\<close>

subsection \<open>What \<open>find_matches\<close> returns\<close>

lemma rule_match_sound:
  "m \<in> set (rule_match text c d rule) \<Longrightarrow>
   matches m \<noteq> [] \<and>
   PatternMatch.confidence m =
     min 0.95 (base_confidence (risk_level m) + 0.05 * (real (length (matches m)) - 1))"
  by (cases rule) (auto simp: rule_match_def Let_def split: if_splits)

lemma rule_match_complete:
  "findall compiled_pattern text \<noteq> [] \<Longrightarrow>
   \<exists>m \<in> set (rule_match text c d (compiled_pattern, original_pattern, level)).
     pattern m = original_pattern \<and> category m = c \<and> risk_level m = level \<and>
     matches m = findall compiled_pattern text"
  by (simp add: rule_match_def Let_def)

lemma find_matches_iff:
  "m \<in> set (find_matches text) \<longleftrightarrow>
   (\<exists>(category_name, rules) \<in> set compiled_patterns. \<exists>rule \<in> set rules.
      m \<in> set (rule_match text category_name (category_description_of category_name) rule))"
  by (auto simp: find_matches_def)

lemma find_matches_sound:
  assumes "m \<in> set (find_matches text)"
  shows "matches m \<noteq> [] \<and>
         PatternMatch.confidence m =
           min 0.95 (base_confidence (risk_level m) + 0.05 * (real (length (matches m)) - 1))"
proof -
  from assms obtain c rule where "m \<in> set (rule_match text c (category_description_of c) rule)"
    by (auto simp: find_matches_iff)
  then show ?thesis by (rule rule_match_sound)
qed

lemma find_matches_complete:
  assumes x: "(c, rules) \<in> set compiled_patterns"
    and r: "(cp, orig, level) \<in> set rules"
    and f: "findall cp text \<noteq> []"
  shows "\<exists>m \<in> set (find_matches text).
           pattern m = orig \<and> category m = c \<and> risk_level m = level \<and>
           matches m = findall cp text"
proof -
  from rule_match_complete [OF f, of c "category_description_of c" orig level]
  obtain m where m: "m \<in> set (rule_match text c (category_description_of c) (cp, orig, level))"
    and p: "pattern m = orig \<and> category m = c \<and> risk_level m = level \<and>
            matches m = findall cp text"
    by blast
  from x r m have "m \<in> set (find_matches text)"
    unfolding find_matches_iff by blast
  with p show ?thesis by blast
qed

text \<open>
  The matches of scenario A, by evaluation of the whole catalog: the only rule found in
  the text is the fourth investment rule, once, on \<open>500% return\<close>.
\<close>

lemma find_matches_scenario_A:
  "find_matches scenario_A =
     [\<lparr> pattern = Seq [Alt [lit ''200'', lit ''300'', lit ''500'', lit ''1000''], lit ''%'',
                       Plus Space, Alt [lit ''return'', lit ''profit'', lit ''guaranteed'']],
        matches = [''500% return''], risk_level = CRITICAL, PatternMatch.confidence = 0.9,
        category = ''investment_scams'', description = ''Investment and trading scams'' \<rparr>]"
  by code_simp

subsection \<open>Confidence of a match\<close>

text \<open>
  C6. Every \<open>PatternMatch\<close> that \<open>find_matches\<close> produces has at least one matched
  substring and the confidence \<open>min 0.95 (base_confidence[tier] + 0.05 * (match_count - 1))\<close>,
  and every rule of the catalog whose pattern is found in the text produces such a
  match, carrying what \<open>findall\<close> returned; \<open>base_confidence\<close> is 0.9, 0.8, 0.6 and 0.4
  for the tiers critical, high, medium and low.
\<close>

theorem pattern_match_confidence:
  "(\<forall>m \<in> set (find_matches text).
      matches m \<noteq> [] \<and>
      PatternMatch.confidence m =
        min 0.95 (base_confidence (risk_level m) + 0.05 * (real (length (matches m)) - 1)))
   \<and> (\<forall>(category_name, rules) \<in> set compiled_patterns.
        \<forall>(compiled_pattern, original_pattern, level) \<in> set rules.
          findall compiled_pattern text \<noteq> [] \<longrightarrow>
          (\<exists>m \<in> set (find_matches text).
             pattern m = original_pattern \<and> category m = category_name \<and>
             risk_level m = level \<and> matches m = findall compiled_pattern text))
   \<and> base_confidence CRITICAL = 0.9 \<and> base_confidence HIGH = 0.8
   \<and> base_confidence MEDIUM = 0.6 \<and> base_confidence LOW = 0.4"
  using find_matches_sound [of _ "text"]
  by (auto intro!: find_matches_complete)

theorem pattern_match_confidence_witness:
  "hd (find_matches scenario_A) \<in> set (find_matches scenario_A)
   \<and> matches (hd (find_matches scenario_A)) = [''500% return'']
   \<and> risk_level (hd (find_matches scenario_A)) = CRITICAL
   \<and> PatternMatch.confidence (hd (find_matches scenario_A)) = min 0.95 (0.9 + 0.05 * (1 - 1))"
  using pattern_match_confidence [of scenario_A]
  by (simp add: find_matches_scenario_A)

subsection \<open>Scenario A\<close>

text \<open>
  C7, as the code has it. On the text of scenario A the pattern matcher produces exactly
  one match, in \<open>investment_scams\<close> with critical tier, and none in \<open>urgency_tactics\<close>:
  the urgency rule that starts with \<open>act now\<close> goes on with \<open>or miss out\<close> or \<open>or lose\<close>.
\<close>

theorem scenario_A_pattern_matches:
  "map (\<lambda>m. (category m, risk_level m)) (find_matches scenario_A) =
     [(''investment_scams'', CRITICAL)]
   \<and> ''urgency_tactics'' \<notin> set (map category (find_matches scenario_A))"
  by (simp add: find_matches_scenario_A)

text \<open>
  C7, as stated: a critical match in \<open>investment_scams\<close> together with a match in
  \<open>urgency_tactics\<close>. The second half fails.
\<close>

theorem scenario_A_no_urgency_tactics:
  "\<not> ((''investment_scams'', CRITICAL)
          \<in> set (map (\<lambda>m. (category m, risk_level m)) (find_matches scenario_A))
      \<and> ''urgency_tactics'' \<in> set (map category (find_matches scenario_A)))"
  by (simp add: find_matches_scenario_A)

section \<open>Failures of a scan item\<close>

subsection \<open>The retry handler\<close>

text \<open>What \<open>_handle_scan_retry\<close> does when it is called, with the store connected.\<close>

lemma handle_scan_retry_requeue:
  assumes "is_connected (redis_service self)" and "get_retry_count item < 3"
  shows "handle_scan_retry now self item err =
           self\<lparr>redis_service := (redis_service self)\<lparr>queues :=
             (queues (redis_service self))
               ((if priority item = Some ''high'' then priority_queue else scan_queue) :=
                  item\<lparr>QueueItem.retry_count := Some (get_retry_count item + 1),
                       last_error := Some err,
                       retry_at := Some (now + 60 * real_of_int (get_retry_count item + 1))\<rparr>
                  # queues (redis_service self)
                      (if priority item = Some ''high'' then priority_queue else scan_queue))\<rparr>\<rparr>"
  using assms by (simp add: handle_scan_retry_def add_to_queue_def Let_def)

lemma handle_scan_retry_exhausted:
  assumes "is_connected (redis_service self)" and "\<not> get_retry_count item < 3"
  shows "handle_scan_retry now self item err =
           (case request_id item of
              None \<Rightarrow> self
            | Some rid \<Rightarrow>
                if rid = [] then self
                else self\<lparr>redis_service := (redis_service self)\<lparr>cache_log :=
                       (scan_result_key rid,
                        empty_dict\<lparr>status := Some ''failed'', error := Some err,
                                   ResultDict.retry_count := Some (get_retry_count item),
                                   failed_at := Some now\<rparr>,
                        now + 3600)
                       # cache_log (redis_service self)\<rparr>\<rparr>)"
  using assms
  by (simp add: handle_scan_retry_def store_scan_result_def set_cache_def Let_def
      split: option.splits)

subsection \<open>A failing analysis\<close>




section \<open>Randomness of the model simulator\<close>

subsection \<open>The two cases of a call\<close>

lemma sigmoid_bounds:
  fixes e :: real
  assumes "0 < e"
  shows "0 < 1 / (1 + e)" and "1 / (1 + e) \<le> 1"
  using assms by (simp_all add: add_pos_pos)

lemma combine_scores_bounds:
  "0 < combine_scores_neural_style b p c" "combine_scores_neural_style b p c \<le> 1"
proof -
  let ?e = "exp (- 5 * ((b * 0.2 + p * 0.6 + c * 0.2) - 0.5))"
  have e: "0 < ?e" by (rule exp_gt_zero)
  note s = sigmoid_bounds [OF e]
  show "0 < combine_scores_neural_style b p c"
    unfolding combine_scores_neural_style_def Let_def np_clip_def using s
    by (simp add: min_def max_def del: exp_gt_zero)
  show "combine_scores_neural_style b p c \<le> 1"
    unfolding combine_scores_neural_style_def Let_def np_clip_def
    by simp
qed

lemma simulate_long_text:
  assumes "\<not> (text = [] \<or> length (py_strip text) < 5)"
  shows "ScamModelSimulator_simulate_bert_prediction np ps cs text g =
     (let noise = fst (np_normal np 0 0.05 g);
          combined = combine_scores_neural_style (get_base_score_by_length (length text))
                       (fst (ps text)) (cs text);
          final_score = np_clip (combined + noise) 0 1
      in (\<lparr> scam_probability = Some final_score,
             confidence = Some (min 0.95 (0.5 + \<bar>final_score - 0.5\<bar>)),
             prediction = Some (if final_score > 0.5 then ''scam'' else ''not_scam''),
             model_type = Some ''bert_simulation'',
             matched_patterns = Some (snd (ps text)), error_message = None \<rparr>,
          snd (np_normal np 0 0.05 g)))"
  using assms
  by (simp add: ScamModelSimulator_simulate_bert_prediction_def add_model_uncertainty_def
      Let_def split_def)

lemma simulate_short_text:
  assumes "text = [] \<or> length (py_strip text) < 5"
  shows "ScamModelSimulator_simulate_bert_prediction np ps cs text g = (empty_prediction, g)"
  using assms by (simp add: ScamModelSimulator_simulate_bert_prediction_def)

subsection \<open>What a call depends on\<close>

text \<open>
  C9, as the code has it. The generator is seeded once, by \<open>initialize_models\<close>, and a
  call on a text of at least five characters after stripping takes one normal draw from
  it and leaves it advanced. The score is the clipped sum of the combined score of the
  text and the draw, the confidence is \<open>min 0.95 (0.5 + \<bar>score - 0.5\<bar>)\<close>: two calls on the
  same text return the same result whenever the generator hands them the same draw.
  A shorter text gets the fixed prediction for empty input and leaves the generator
  alone.
\<close>

theorem simulate_bert_prediction_depends_on_draw:
  "(fst (np_normal np 0 0.05 g) = fst (np_normal np 0 0.05 g') \<longrightarrow>
      fst (ScamModelSimulator_simulate_bert_prediction np ps cs text g) =
      fst (ScamModelSimulator_simulate_bert_prediction np ps cs text g'))
   \<and> (text = [] \<or> length (py_strip text) < 5 \<longrightarrow>
      ScamModelSimulator_simulate_bert_prediction np ps cs text g = (empty_prediction, g))
   \<and> (\<not> (text = [] \<or> length (py_strip text) < 5) \<longrightarrow>
      snd (ScamModelSimulator_simulate_bert_prediction np ps cs text g) =
        snd (np_normal np 0 0.05 g)
      \<and> scam_probability (fst (ScamModelSimulator_simulate_bert_prediction np ps cs text g)) =
          Some (np_clip (combine_scores_neural_style (get_base_score_by_length (length text))
                           (fst (ps text)) (cs text)
                         + fst (np_normal np 0 0.05 g)) 0 1)
      \<and> BertResult.confidence (fst (ScamModelSimulator_simulate_bert_prediction np ps cs text g)) =
          Some (min 0.95 (0.5 +
            \<bar>np_clip (combine_scores_neural_style (get_base_score_by_length (length text))
                           (fst (ps text)) (cs text)
                         + fst (np_normal np 0 0.05 g)) 0 1 - 0.5\<bar>)))"
proof (cases "text = [] \<or> length (py_strip text) < 5")
  case True
  then show ?thesis by (simp add: simulate_short_text)
next
  case False
  then show ?thesis by (simp add: simulate_long_text Let_def)
qed

theorem simulate_bert_prediction_depends_on_draw_witness:
  "fst (np_normal alternating_generator 0 0.05 0) = fst (np_normal alternating_generator 0 0.05 2)
   \<and> fst (ScamModelSimulator_simulate_bert_prediction alternating_generator
            (\<lambda>_. (0, 0)) (\<lambda>_. 0) ''hello world'' 0) =
       fst (ScamModelSimulator_simulate_bert_prediction alternating_generator
            (\<lambda>_. (0, 0)) (\<lambda>_. 0) ''hello world'' 2)
   \<and> ScamModelSimulator_simulate_bert_prediction alternating_generator
            (\<lambda>_. (0, 0)) (\<lambda>_. 0) ''hi'' 0 = (empty_prediction, 0)
   \<and> snd (ScamModelSimulator_simulate_bert_prediction alternating_generator
            (\<lambda>_. (0, 0)) (\<lambda>_. 0) ''hello world'' 0) = 1"
  using simulate_bert_prediction_depends_on_draw [of alternating_generator 0 2
          "\<lambda>_. (0, 0)" "\<lambda>_. 0" "''hello world''"]
        simulate_bert_prediction_depends_on_draw [of alternating_generator 0 2
          "\<lambda>_. (0, 0)" "\<lambda>_. 0" "''hi''"]
  by (simp add: alternating_generator_def py_strip_def is_space_def)

subsection \<open>Two calls in a row\<close>

lemma clip_alternating_differs:
  fixes a :: real
  assumes "0 < a" and "a \<le> 1"
  shows "np_clip (a + 0.05) 0 1 \<noteq> np_clip (a - 0.05) 0 1"
  using assms by (simp add: np_clip_def min_def max_def)

lemma two_calls_alternating:
  assumes "\<not> (text = [] \<or> length (py_strip text) < 5)"
  shows "scam_probability (fst (two_calls alternating_generator ps cs text))
       \<noteq> scam_probability (snd (two_calls alternating_generator ps cs text))"
proof -
  let ?a = "combine_scores_neural_style (get_base_score_by_length (length text))
              (fst (ps text)) (cs text)"
  have 1: "scam_probability (fst (two_calls alternating_generator ps cs text)) =
             Some (np_clip (?a + 0.05) 0 1)"
    using assms
    by (simp add: two_calls_def initialize_models_def simulate_long_text Let_def split_def
        alternating_generator_def)
  have 2: "scam_probability (snd (two_calls alternating_generator ps cs text)) =
             Some (np_clip (?a - 0.05) 0 1)"
    using assms
    by (simp add: two_calls_def initialize_models_def simulate_long_text Let_def split_def
        alternating_generator_def)
  show ?thesis
    unfolding 1 2 using clip_alternating_differs [OF combine_scores_bounds, of _ _ _]
    by simp
qed

text \<open>
  C9, as stated: with the seed fixed, two calls on the same text return the same score.
  The second call starts from the state the first one left, so it gets the next draw.
  With a generator whose first two draws differ the two scores differ.
\<close>

theorem two_calls_differ:
  "scam_probability (fst (two_calls alternating_generator (\<lambda>_. (0, 0)) (\<lambda>_. 0) ''hello world''))
   \<noteq> scam_probability (snd (two_calls alternating_generator (\<lambda>_. (0, 0)) (\<lambda>_. 0) ''hello world''))"
  by (rule two_calls_alternating) (simp add: py_strip_def is_space_def)

section \<open>The \<open>bert\<close> prediction without the real model\<close>

subsection \<open>The pattern simulator, once constructed\<close>

text \<open>
  In a module that binds \<open>re\<close> the constructor completes, and the instance has no
  attribute \<open>advanced_simulator\<close>: the simulated prediction is the result of the
  exception handler, and the \<open>bert\<close> prediction made from it has score 0.1 and
  confidence 0.5 for every text.
\<close>

lemma compile_with_weights_bound:
  "''re'' \<in> set names \<Longrightarrow> \<exists>c g'. compile_with_weights names np i ps g = Inr (c, g')"
proof (induction ps arbitrary: i g)
  case Nil
  then show ?case by simp
next
  case (Cons p ps)
  obtain w g1 where w: "get_pattern_weight np i g = (w, g1)"
    by (cases "get_pattern_weight np i g")
  from Cons.IH [OF Cons.prems, of "Suc i" g1]
  obtain c g2 where "compile_with_weights names np (Suc i) ps g1 = Inr (c, g2)" by blast
  with Cons.prems w show ?case by (simp add: lookup_name_def)
qed

lemma constructed_has_no_advanced_simulator:
  assumes "ScamPatternSimulator_init names np g = Inr (sim, g')"
  shows "getattr sim ''advanced_simulator'' = Inl ''AttributeError: no attribute advanced_simulator''"
  using assms
  by (auto simp: ScamPatternSimulator_init_def getattr_def split: sum.splits)

lemma bert_fallback_constant_if_constructed:
  assumes "ScamPatternSimulator_init names np g = Inr (sim, g')" and "\<not> bert_loaded self"
  shows "score (get_bert_prediction self classifier sim text elapsed) = 0.1
       \<and> confidence (get_bert_prediction self classifier sim text elapsed) = 0.5"
  using assms(2) constructed_has_no_advanced_simulator [OF assms(1)]
  by (simp add: get_bert_prediction_def ScamPatternSimulator_simulate_bert_prediction_def
      Let_def)

lemma constructed_when_re_bound:
  assumes "''re'' \<in> set names"
  shows "\<exists>sim g'. ScamPatternSimulator_init names np g = Inr (sim, g')"
proof -
  from compile_with_weights_bound [OF assms, of np 0 scam_patterns g]
  obtain c g' where "compile_with_weights names np 0 scam_patterns g = Inr (c, g')" by blast
  then show ?thesis by (simp add: ScamPatternSimulator_init_def)
qed

subsection \<open>The module as it is\<close>

lemma re_not_bound:
  "lookup_name bert_classifier_module_names ''re'' = Inl ''NameError: name re is not defined''"
  by (simp add: lookup_name_def bert_classifier_module_names_def)

lemma scam_patterns_not_empty: "\<exists>p ps. scam_patterns = p # ps"
  by (simp add: scam_patterns_def)

text \<open>
  C10. The claim gives the \<open>bert\<close> prediction without the real model as the constant
  (0.1, 0.5). The module of the pattern simulator binds neither \<open>re\<close> nor \<open>Any\<close>: the
  constructor of \<open>ScamPatternSimulator\<close> raises \<open>NameError\<close> at its first \<open>re.compile\<close>,
  loading the module ends with a \<open>NameError\<close> whether or not annotations are evaluated,
  and the import in the ensemble module fails before any \<open>bert\<close> prediction is made.
\<close>

theorem pattern_simulator_never_constructed:
  "ScamPatternSimulator_init bert_classifier_module_names np g =
     Inl ''NameError: name re is not defined''
   \<and> load_bert_classifier_module annotations_evaluated np g =
       Inl (if annotations_evaluated then ''NameError: name Any is not defined''
            else ''NameError: name re is not defined'')
   \<and> import_bert_prediction annotations_evaluated np g self classifier text elapsed =
       Inl (if annotations_evaluated then ''NameError: name Any is not defined''
            else ''NameError: name re is not defined'')"
proof -
  obtain p ps where ps: "scam_patterns = p # ps"
    using scam_patterns_not_empty by blast
  have init: "ScamPatternSimulator_init bert_classifier_module_names np g =
     Inl ''NameError: name re is not defined''"
    by (simp add: ScamPatternSimulator_init_def ps re_not_bound)
  have any: "lookup_name bert_classifier_module_names ''Any'' =
     Inl ''NameError: name Any is not defined''"
    by (simp add: lookup_name_def bert_classifier_module_names_def)
  have load: "load_bert_classifier_module annotations_evaluated np g =
       Inl (if annotations_evaluated then ''NameError: name Any is not defined''
            else ''NameError: name re is not defined'')"
    by (simp add: load_bert_classifier_module_def init any)
  show ?thesis
    by (simp add: init load import_bert_prediction_def)
qed

end
